theory Spec2Isabelle
  imports Complex_Main
begin

section \<open>Python values\<close>

text \<open>
  The services handle the objects that \<^verbatim>\<open>response.json()\<close> decodes and build
  dictionaries from them.  A finite double is identified with the rational number it
  denotes (the sign of zero is not tracked: no operation of the program looks at it);
  the JSON decoder of Python also produces infinities and NaN.
\<close>

datatype pyfloat = Finite rat | PosInf | NegInf | NaN

text \<open>
  A \<^verbatim>\<open>datetime\<close>: the wall-clock reading in microseconds, and for an aware value
  the zone name with the UTC offset (in microseconds) in force.
\<close>

datatype datetime = Datetime int "(string \<times> int) option"

datatype pyval =
    PyNone
  | PyBool bool
  | PyInt int
  | PyFloat pyfloat
  | PyStr string
  | PyList "pyval list"
  | PyDict "(string \<times> pyval) list"
  | PyDatetime datetime

text \<open>
  Exceptions carry the text that \<^verbatim>\<open>str(e)\<close> gives, except \<open>HTTPException\<close>, which
  carries \<^verbatim>\<open>status_code\<close> and \<^verbatim>\<open>detail\<close>.  \<open>RequestException\<close> stands for
  \<^verbatim>\<open>requests.RequestException\<close> and its subclasses, \<open>OtherException\<close> for any other
  subclass of \<^verbatim>\<open>Exception\<close> (the errors of the OpenAI client among them), and
  \<open>NonException\<close> for the subclasses of \<^verbatim>\<open>BaseException\<close> outside \<^verbatim>\<open>Exception\<close>
  (\<^verbatim>\<open>KeyboardInterrupt\<close>, \<^verbatim>\<open>SystemExit\<close>).
\<close>

datatype exn =
    HTTPException nat string
  | RequestException string
  | KeyError string
  | IndexError string
  | TypeError string
  | AttributeError string
  | ValueError string
  | OverflowError string
  | OtherException string
  | NonException string

text \<open>Sequencing of statements that may raise.\<close>

definition bnd :: "exn + 'a \<Rightarrow> ('a \<Rightarrow> exn + 'b) \<Rightarrow> exn + 'b" where
  "bnd m f = (case m of Inl e \<Rightarrow> Inl e | Inr x \<Rightarrow> f x)"

fun str_nat :: "nat \<Rightarrow> string" where
  "str_nat n =
     (if n < 10 then [char_of (48 + n)]
      else str_nat (n div 10) @ [char_of (48 + n mod 10)])"

declare str_nat.simps [simp del]

fun str_exn :: "exn \<Rightarrow> string" where
  "str_exn (HTTPException code detail) = str_nat code @ '': '' @ detail"
| "str_exn (RequestException s) = s"
| "str_exn (KeyError s) = s"
| "str_exn (IndexError s) = s"
| "str_exn (TypeError s) = s"
| "str_exn (AttributeError s) = s"
| "str_exn (ValueError s) = s"
| "str_exn (OverflowError s) = s"
| "str_exn (OtherException s) = s"
| "str_exn (NonException s) = s"

fun isinstance_Exception :: "exn \<Rightarrow> bool" where
  "isinstance_Exception (NonException s) = False"
| "isinstance_Exception e = True"

text \<open>A text between apostrophes, as the messages of the interpreter show names.\<close>

definition quoted :: "string \<Rightarrow> string" where
  "quoted s = [CHR 0x27] @ s @ [CHR 0x27]"

fun type_name :: "pyval \<Rightarrow> string" where
  "type_name PyNone = ''NoneType''"
| "type_name (PyBool b) = ''bool''"
| "type_name (PyInt i) = ''int''"
| "type_name (PyFloat x) = ''float''"
| "type_name (PyStr s) = ''str''"
| "type_name (PyList xs) = ''list''"
| "type_name (PyDict kvs) = ''dict''"
| "type_name (PyDatetime d) = ''datetime.datetime''"

text \<open>
  \<^verbatim>\<open>obj.get(key, default)\<close>: a method of dictionaries only, so on any other object
  the attribute lookup raises \<^verbatim>\<open>AttributeError\<close>.
\<close>

definition get :: "pyval \<Rightarrow> string \<Rightarrow> pyval \<Rightarrow> exn + pyval" where
  "get obj key dflt =
     (case obj of
        PyDict kvs \<Rightarrow> Inr (case map_of kvs key of None \<Rightarrow> dflt | Some v \<Rightarrow> v)
      | _ \<Rightarrow> Inl (AttributeError
               (quoted (type_name obj) @ '' object has no attribute '' @ quoted ''get'')))"

text \<open>
  \<^verbatim>\<open>obj[0]\<close>: the first element of a list, the first character of a string; a
  dictionary decoded from JSON has string keys only, so the key \<open>0\<close> is never there.
\<close>

definition getitem0 :: "pyval \<Rightarrow> exn + pyval" where
  "getitem0 obj =
     (case obj of
        PyList xs \<Rightarrow>
          (case xs of [] \<Rightarrow> Inl (IndexError ''list index out of range'') | x # _ \<Rightarrow> Inr x)
      | PyStr s \<Rightarrow>
          (case s of [] \<Rightarrow> Inl (IndexError ''string index out of range'')
           | c # _ \<Rightarrow> Inr (PyStr [c]))
      | PyDict kvs \<Rightarrow> Inl (KeyError ''0'')
      | _ \<Rightarrow> Inl (TypeError (quoted (type_name obj) @ '' object is not subscriptable'')))"

text \<open>
  \<^verbatim>\<open>float(i)\<close> on an integer: the nearest double, ties to even, and
  \<^verbatim>\<open>OverflowError\<close> when the rounded value does not fit.  \<open>bit_length\<close> is
  \<^verbatim>\<open>int.bit_length\<close>; the 53 leading bits are kept.
\<close>

function bit_length :: "int \<Rightarrow> nat" where
  "bit_length n = (if n = 0 then 0 else Suc (bit_length (\<bar>n\<bar> div 2)))"
  by pat_completeness auto
termination
  by (relation "measure (\<lambda>n. nat \<bar>n\<bar>)") auto

declare bit_length.simps [simp del]

definition float_of_int :: "int \<Rightarrow> exn + pyfloat" where
  "float_of_int i =
     (let n = \<bar>i\<bar>;
          sh = bit_length n - 53;
          q = n div 2 ^ sh;
          r = n mod 2 ^ sh;
          q' = (if 2 ^ sh < 2 * r \<or> (2 * r = 2 ^ sh \<and> odd q) then q + 1 else q);
          v = q' * 2 ^ sh
      in if 2 ^ 1024 \<le> v then Inl (OverflowError ''int too large to convert to float'')
         else Inr (Finite (of_int (sgn i * v))))"

text \<open>
  \<^verbatim>\<open>float(obj)\<close>.  A double is returned as it is, an integer or a boolean is
  converted, a string is parsed (the parser of the Python runtime is a parameter:
  \<open>None\<close> is its \<^verbatim>\<open>ValueError\<close>), anything else is a \<^verbatim>\<open>TypeError\<close>.
\<close>

definition py_float :: "(string \<Rightarrow> pyfloat option) \<Rightarrow> pyval \<Rightarrow> exn + pyfloat" where
  "py_float parse obj =
     (case obj of
        PyFloat x \<Rightarrow> Inr x
      | PyInt i \<Rightarrow> float_of_int i
      | PyBool b \<Rightarrow> float_of_int (if b then 1 else 0)
      | PyStr s \<Rightarrow>
          (case parse s of
             None \<Rightarrow> Inl (ValueError (''could not convert string to float: '' @ quoted s))
           | Some x \<Rightarrow> Inr x)
      | _ \<Rightarrow> Inl (TypeError (''float() argument must be a string or a real number, not ''
                  @ quoted (type_name obj))))"

text \<open>\<^verbatim>\<open>float(v) if v is not None else None\<close>\<close>

definition float_if_not_None :: "(string \<Rightarrow> pyfloat option) \<Rightarrow> pyval \<Rightarrow> exn + pyval" where
  "float_if_not_None parse v =
     (if v \<noteq> PyNone then bnd (py_float parse v) (\<lambda>x. Inr (PyFloat x)) else Inr PyNone)"

section \<open>The world outside the process\<close>

text \<open>
  An external endpoint answers a request and keeps the list of the requests it was
  sent, so that what a handler sends is part of what it returns.
\<close>

record ('q, 'a) remote =
  behaviour :: "'q \<Rightarrow> 'a"
  sent :: "'q list"

definition call :: "('q, 'a) remote \<Rightarrow> 'q \<Rightarrow> 'a \<times> ('q, 'a) remote" where
  "call r q = (behaviour r q, r\<lparr>sent := sent r @ [q]\<rparr>)"

text \<open>
  What \<^verbatim>\<open>requests\<close> hands back: the status line and what \<^verbatim>\<open>response.json()\<close>
  does, the decoded value or the text of its \<^verbatim>\<open>JSONDecodeError\<close> (a
  \<^verbatim>\<open>RequestException\<close> in the \<^verbatim>\<open>requests\<close> library).
\<close>

record http_response =
  status_code :: nat
  reason :: string
  url :: string
  json_result :: "string + pyval"

definition raise_for_status :: "http_response \<Rightarrow> exn + unit" where
  "raise_for_status r =
     (if 400 \<le> status_code r \<and> status_code r < 500 then
        Inl (RequestException
          (str_nat (status_code r) @ '' Client Error: '' @ reason r @ '' for url: '' @ url r))
      else if 500 \<le> status_code r \<and> status_code r < 600 then
        Inl (RequestException
          (str_nat (status_code r) @ '' Server Error: '' @ reason r @ '' for url: '' @ url r))
      else Inr ())"

definition json :: "http_response \<Rightarrow> exn + pyval" where
  "json r = (case json_result r of Inl e \<Rightarrow> Inl (RequestException e) | Inr v \<Rightarrow> Inr v)"

datatype ChatCompletionMessage = ChatCompletionMessage "string option"

datatype Choice = Choice ChatCompletionMessage

datatype ChatCompletion = ChatCompletion "Choice list"

text \<open>
  \<open>requests_get\<close> is \<^verbatim>\<open>requests.get(url, params=...)\<close>: it raises a
  \<^verbatim>\<open>RequestException\<close> (\<open>Inl\<close>, with its text) or returns a response.
  \<open>chat_completions\<close> is \<^verbatim>\<open>client.chat.completions.create\<close>, called with keyword
  arguments.  \<open>utcnow\<close> is the system clock in microseconds, \<open>local_utcoffset\<close> the
  offset of the host's own timezone, \<open>float_of_str\<close> the runtime's parser of doubles.
\<close>

record world =
  requests_get :: "(string \<times> (string \<times> pyval) list, string + http_response) remote"
  chat_completions :: "((string \<times> pyval) list, exn + ChatCompletion) remote"
  utcnow :: int
  local_utcoffset :: int
  float_of_str :: "string \<Rightarrow> pyfloat option"

text \<open>\<^verbatim>\<open>datetime.now()\<close>: the naive local time.\<close>

definition datetime_now :: "world \<Rightarrow> datetime" where
  "datetime_now w = Datetime (utcnow w + local_utcoffset w) None"

text \<open>
  \<^verbatim>\<open>pytz.timezone(name)\<close>, \<^verbatim>\<open>str(tz)\<close> and \<^verbatim>\<open>datetime.now(tz)\<close>.  The
  zone database that \<^verbatim>\<open>pytz\<close> ships (the UTC offset of a named zone at a UTC
  instant) is a parameter.
\<close>

record tzinfo =
  zone :: string
  utcoffset :: "int \<Rightarrow> int"

definition pytz_timezone :: "(string \<Rightarrow> int \<Rightarrow> int) \<Rightarrow> string \<Rightarrow> tzinfo" where
  "pytz_timezone tzdata name = \<lparr>zone = name, utcoffset = tzdata name\<rparr>"

definition str_tz :: "tzinfo \<Rightarrow> string" where
  "str_tz tz = zone tz"

definition datetime_now_tz :: "world \<Rightarrow> tzinfo \<Rightarrow> datetime" where
  "datetime_now_tz w tz =
     Datetime (utcnow w + utcoffset tz (utcnow w)) (Some (zone tz, utcoffset tz (utcnow w)))"

text \<open>The instant an aware \<^verbatim>\<open>datetime\<close> denotes, in UTC microseconds.\<close>

fun utc_instant :: "datetime \<Rightarrow> int option" where
  "utc_instant (Datetime wall None) = None"
| "utc_instant (Datetime wall (Some (name, off))) = Some (wall - off)"

section \<open>config.py\<close>

text \<open>The float literals \<^verbatim>\<open>44.384\<close> and \<^verbatim>\<open>7.543\<close> denote these doubles.\<close>

definition float_44_384 :: pyfloat where
  "float_44_384 = Finite (3123246341581439 / 2 ^ 46)"

definition float_7_543 :: pyfloat where
  "float_7_543 = Finite (8492662997313913 / 2 ^ 50)"

record settings =
  OPENAI_API_KEY :: string
  CUNEO_LAT :: pyfloat
  CUNEO_LON :: pyfloat
  ENVIRONMENT :: string

definition config :: "(string \<Rightarrow> string option) \<Rightarrow> string \<Rightarrow> string \<Rightarrow> string" where
  "config environ name dflt = (case environ name of None \<Rightarrow> dflt | Some v \<Rightarrow> v)"

definition Settings :: "(string \<Rightarrow> string option) \<Rightarrow> settings" where
  "Settings environ =
     \<lparr>OPENAI_API_KEY = config environ ''OPENAI_API_KEY'' '''',
      CUNEO_LAT = float_44_384,
      CUNEO_LON = float_7_543,
      ENVIRONMENT = config environ ''ENVIRONMENT'' ''development''\<rparr>"

section \<open>services/weather_service.py\<close>

definition base_url :: string where
  "base_url = ''https://api.open-meteo.com/v1/forecast''"

definition params :: "(string \<times> pyval) list" where
  "params =
     [(''latitude'', PyFloat float_44_384),
      (''longitude'', PyFloat float_7_543),
      (''hourly'', PyList [PyStr ''temperature_2m'', PyStr ''relative_humidity_2m'']),
      (''timezone'', PyStr ''Europe/Rome''),
      (''current_weather'', PyBool True)]"

text \<open>Lines 30 and 31: \<^verbatim>\<open># Extract current weather data\<close>.\<close>

definition temperature_of :: "pyval \<Rightarrow> exn + pyval" where
  "temperature_of data =
     bnd (get data ''current_weather'' (PyDict [])) (\<lambda>current_weather.
     get current_weather ''temperature'' PyNone)"

text \<open>Lines 34 and 35: \<^verbatim>\<open># Get first hour's humidity from hourly data\<close>.\<close>

definition humidity_of :: "pyval \<Rightarrow> exn + pyval" where
  "humidity_of data =
     bnd (get data ''hourly'' (PyDict [])) (\<lambda>hourly_data.
     bnd (get hourly_data ''relative_humidity_2m'' (PyList [PyNone])) getitem0)"

text \<open>Lines 29 to 42: from the decoded \<open>data\<close> to the returned dictionary.\<close>

definition weather_of_data :: "world \<Rightarrow> pyval \<Rightarrow> exn + pyval" where
  "weather_of_data w data =
     bnd (temperature_of data) (\<lambda>temperature.
     bnd (humidity_of data) (\<lambda>humidity.
     bnd (float_if_not_None (float_of_str w) temperature) (\<lambda>t.
     bnd (float_if_not_None (float_of_str w) humidity) (\<lambda>h.
     Inr (PyDict
       [(''city'', PyStr ''Cuneo''),
        (''temperature'', t),
        (''humidity'', h),
        (''timestamp'', PyDatetime (datetime_now w))])))))"

text \<open>The body of the \<^verbatim>\<open>try\<close> statement, lines 16 to 42.\<close>

definition weather_try :: "world \<Rightarrow> (exn + pyval) \<times> world" where
  "weather_try w =
     (let (got, endpoint) = call (requests_get w) (base_url, params);
          w' = w\<lparr>requests_get := endpoint\<rparr>
      in (case got of
            Inl e \<Rightarrow> Inl (RequestException e)
          | Inr response \<Rightarrow>
              bnd (raise_for_status response) (\<lambda>_.
              bnd (json response) (\<lambda>data.
              weather_of_data w' data)),
          w'))"

text \<open>The two \<^verbatim>\<open>except\<close> clauses, lines 44 to 53; any other exception propagates.\<close>

fun weather_except :: "exn \<Rightarrow> exn" where
  "weather_except (RequestException e) =
     HTTPException 500 (''Errore nel recupero dei dati meteo: '' @ e)"
| "weather_except (KeyError e) =
     HTTPException 500 (''Errore nel processamento dei dati meteo: '' @ e)"
| "weather_except (IndexError e) =
     HTTPException 500 (''Errore nel processamento dei dati meteo: '' @ e)"
| "weather_except (TypeError e) =
     HTTPException 500 (''Errore nel processamento dei dati meteo: '' @ e)"
| "weather_except e = e"

text \<open>
  The module imports \<^verbatim>\<open>settings\<close>; it is passed here as the first argument, so that
  whether the function reads it can be stated.
\<close>

definition get_cuneo_weather :: "settings \<Rightarrow> world \<Rightarrow> (exn + pyval) \<times> world" where
  "get_cuneo_weather cfg w =
     (let (outcome, w') = weather_try w
      in (case outcome of Inl e \<Rightarrow> Inl (weather_except e) | Inr reading \<Rightarrow> Inr reading, w'))"

section \<open>services/time_service.py\<close>

record TimeService =
  timezone :: tzinfo

definition TimeService_init :: "(string \<Rightarrow> int \<Rightarrow> int) \<Rightarrow> TimeService" where
  "TimeService_init tzdata = \<lparr>timezone = pytz_timezone tzdata ''Europe/Rome''\<rparr>"

definition get_current_time :: "TimeService \<Rightarrow> world \<Rightarrow> pyval \<times> world" where
  "get_current_time self w =
     (let current_time = datetime_now_tz w (timezone self)
      in (PyDict
            [(''current_time'', PyDatetime current_time),
             (''timezone'', PyStr (str_tz (timezone self)))],
          w))"

section \<open>services/openai_service.py\<close>

text \<open>\<^verbatim>\<open>response.choices[0].message.content\<close>\<close>

fun first_choice_content :: "ChatCompletion \<Rightarrow> exn + pyval" where
  "first_choice_content (ChatCompletion []) = Inl (IndexError ''list index out of range'')"
| "first_choice_content (ChatCompletion (Choice (ChatCompletionMessage content) # rest)) =
     Inr (case content of None \<Rightarrow> PyNone | Some s \<Rightarrow> PyStr s)"

text \<open>The keyword arguments of the call, lines 17 to 21.\<close>

definition create_kwargs :: "string \<Rightarrow> (string \<times> pyval) list" where
  "create_kwargs message =
     [(''model'', PyStr ''gpt-3.5-turbo''),
      (''messages'', PyList [PyDict [(''role'', PyStr ''user''), (''content'', PyStr message)]]),
      (''max_tokens'', PyInt 150)]"

text \<open>The body of the \<^verbatim>\<open>try\<close> statement, lines 16 to 27.\<close>

definition chat_try :: "world \<Rightarrow> string \<Rightarrow> (exn + pyval) \<times> world" where
  "chat_try w message =
     (let (got, endpoint) = call (chat_completions w) (create_kwargs message);
          w' = w\<lparr>chat_completions := endpoint\<rparr>
      in (bnd got (\<lambda>response.
          bnd (first_choice_content response) (\<lambda>content.
          Inr (PyDict
            [(''response'', content),
             (''timestamp'', PyDatetime (datetime_now w'))]))),
          w'))"

text \<open>\<^verbatim>\<open>except Exception as e\<close>, lines 28 to 32.\<close>

definition chat_except :: "exn \<Rightarrow> exn" where
  "chat_except e =
     (if isinstance_Exception e
      then HTTPException 500 (''Errore nella comunicazione con OpenAI: '' @ str_exn e)
      else e)"

definition get_chat_response :: "world \<Rightarrow> string \<Rightarrow> (exn + pyval) \<times> world" where
  "get_chat_response w message =
     (let (outcome, w') = chat_try w message
      in (case outcome of Inl e \<Rightarrow> Inl (chat_except e) | Inr reply \<Rightarrow> Inr reply, w'))"

section \<open>main.py\<close>

definition health_check :: "world \<Rightarrow> pyval \<times> world" where
  "health_check w = (PyDict [(''status'', PyStr ''healthy'')], w)"

section \<open>Notions used to state the properties\<close>

text \<open>
  The upstream call of the weather service went through and decoded to \<open>data\<close>:
  \<^verbatim>\<open>requests.get\<close> returned, \<^verbatim>\<open>raise_for_status\<close> and \<^verbatim>\<open>json\<close> raised nothing.
\<close>

definition upstream_returns :: "world \<Rightarrow> pyval \<Rightarrow> bool" where
  "upstream_returns w data =
     (case behaviour (requests_get w) (base_url, params) of
        Inl e \<Rightarrow> False
      | Inr response \<Rightarrow> raise_for_status response = Inr () \<and> json response = Inr data)"

text \<open>
  The text of the \<^verbatim>\<open>RequestException\<close> that the upstream call raises, if it raises
  one: in \<^verbatim>\<open>requests.get\<close>, in \<^verbatim>\<open>raise_for_status\<close> or in \<^verbatim>\<open>json\<close>.
\<close>

definition transport_failure :: "world \<Rightarrow> string option" where
  "transport_failure w =
     (case behaviour (requests_get w) (base_url, params) of
        Inl e \<Rightarrow> Some e
      | Inr response \<Rightarrow>
          (case bnd (raise_for_status response) (\<lambda>_. json response) of
             Inl (RequestException e) \<Rightarrow> Some e
           | _ \<Rightarrow> None))"

text \<open>
  The double that a decoded JSON number stands for, where it stands for one exactly:
  a double is itself, an integer of magnitude at most \<open>2 ^ 53\<close> is the double of the
  same value.
\<close>

fun number_value :: "pyval \<Rightarrow> pyfloat option" where
  "number_value (PyFloat x) = Some x"
| "number_value (PyInt i) = (if \<bar>i\<bar> \<le> 2 ^ 53 then Some (Finite (of_int i)) else None)"
| "number_value v = None"

text \<open>
  The body has no humidity sample: no hourly block, or an hourly block without the
  series, or a series that starts with \<^verbatim>\<open>null\<close>.
\<close>

definition humidity_missing :: "(string \<times> pyval) list \<Rightarrow> bool" where
  "humidity_missing kvs =
     (case map_of kvs ''hourly'' of
        None \<Rightarrow> True
      | Some (PyDict hourly) \<Rightarrow>
          (case map_of hourly ''relative_humidity_2m'' of
             None \<Rightarrow> True
           | Some (PyList (PyNone # rest)) \<Rightarrow> True
           | _ \<Rightarrow> False)
      | _ \<Rightarrow> False)"

text \<open>The instant under \<^verbatim>\<open>"current_time"\<close> in a returned dictionary.\<close>

fun returned_instant :: "pyval \<Rightarrow> int option" where
  "returned_instant (PyDict kvs) =
     (case map_of kvs ''current_time'' of Some (PyDatetime d) \<Rightarrow> utc_instant d | _ \<Rightarrow> None)"
| "returned_instant v = None"

section \<open>Example worlds\<close>

text \<open>
  A world whose weather upstream and chat upstream give the stated outcomes; the
  clock shows 2023-11-14 22:13:20 UTC on a host one hour ahead of UTC.
\<close>

definition example_world :: "string + http_response \<Rightarrow> exn + ChatCompletion \<Rightarrow> world" where
  "example_world weather chat =
     \<lparr>requests_get = \<lparr>behaviour = (\<lambda>q. weather), sent = []\<rparr>,
      chat_completions = \<lparr>behaviour = (\<lambda>q. chat), sent = []\<rparr>,
      utcnow = 1700000000000000,
      local_utcoffset = 3600000000,
      float_of_str = (\<lambda>s. None)\<rparr>"

text \<open>The upstream answers 200 with a body that decodes to the given value.\<close>

definition ok_response :: "pyval \<Rightarrow> string + http_response" where
  "ok_response body =
     Inr \<lparr>status_code = 200, reason = ''OK'', url = base_url, json_result = Inr body\<rparr>"

definition chat_down :: "exn + ChatCompletion" where
  "chat_down = Inl (OtherException ''Connection error.'')"

definition example_settings :: settings where
  "example_settings = Settings (\<lambda>name. None)"

text \<open>A zone database with Rome one hour ahead of UTC throughout.\<close>

definition example_tzdata :: "string \<Rightarrow> int \<Rightarrow> int" where
  "example_tzdata name t = 3600000000"

text \<open>A body as the forecast service sends it, and bodies that lack parts of it.\<close>

definition example_body :: "(string \<times> pyval) list" where
  "example_body =
     [(''current_weather'',
         PyDict [(''temperature'', PyFloat (Finite (25 / 2))), (''time'', PyStr ''2023-11-14T23:00'')]),
      (''hourly'', PyDict [(''relative_humidity_2m'', PyList [PyInt 87, PyInt 88])])]"

definition body_null_series :: "(string \<times> pyval) list" where
  "body_null_series = [(''hourly'', PyDict [(''relative_humidity_2m'', PyNone)])]"

definition body_empty_series :: "(string \<times> pyval) list" where
  "body_empty_series =
     [(''current_weather'', PyDict [(''temperature'', PyFloat (Finite (25 / 2)))]),
      (''hourly'', PyDict [(''relative_humidity_2m'', PyList [])])]"

definition body_no_hourly :: "(string \<times> pyval) list" where
  "body_no_hourly = [(''current_weather'', PyDict [(''temperature'', PyFloat (Finite (25 / 2)))])]"

definition body_missing_keys :: "(string \<times> pyval) list" where
  "body_missing_keys = [(''current_weather'', PyDict []), (''hourly'', PyDict [])]"

definition body_null_block :: "(string \<times> pyval) list" where
  "body_null_block = [(''current_weather'', PyNone)]"

text \<open>Upstream failures: a refused connection, and a 503 with a body that is no JSON.\<close>

definition refused :: "string + http_response" where
  "refused = Inl ''Connection refused''"

definition unavailable :: "string + http_response" where
  "unavailable =
     Inr \<lparr>status_code = 503, reason = ''Service Unavailable'', url = base_url,
          json_result = Inl ''Expecting value: line 1 column 1 (char 0)''\<rparr>"

text \<open>Chat upstream outcomes: a completion with one choice, and a rate limit.\<close>

definition example_completion :: "exn + ChatCompletion" where
  "example_completion = Inr (ChatCompletion [Choice (ChatCompletionMessage (Some ''Buongiorno!''))])"

definition rate_limited :: "exn + ChatCompletion" where
  "rate_limited = Inl (OtherException ''Error code: 429'')"

section \<open>Properties of the Python operations\<close>

lemma bnd_Inl [simp]: "bnd (Inl e) f = Inl e"
  by (simp add: bnd_def)

lemma bnd_Inr [simp]: "bnd (Inr x) f = f x"
  by (simp add: bnd_def)

lemma get_PyDict [simp]:
  "get (PyDict kvs) key dflt = Inr (case map_of kvs key of None \<Rightarrow> dflt | Some v \<Rightarrow> v)"
  by (simp add: get_def)

lemma bit_length_bound: "0 \<le> n \<Longrightarrow> n < 2 ^ k \<Longrightarrow> bit_length n \<le> k"
proof (induction k arbitrary: n)
  case 0
  then have "n = 0" by simp
  then show ?case by (simp add: bit_length.simps)
next
  case (Suc k)
  show ?case
  proof (cases "n = 0")
    case True
    then show ?thesis by (simp add: bit_length.simps)
  next
    case False
    from Suc.prems have "\<bar>n\<bar> div 2 < 2 ^ k" "0 \<le> \<bar>n\<bar> div 2" by auto
    then have "bit_length (\<bar>n\<bar> div 2) \<le> k" using Suc.IH by blast
    with False show ?thesis by (subst bit_length.simps) simp
  qed
qed

lemma bit_length_2_53: "bit_length 9007199254740992 = 54"
  by (simp add: bit_length.simps)

lemma float_of_int_exact:
  assumes "\<bar>i\<bar> \<le> 2 ^ 53"
  shows "float_of_int i = Inr (Finite (of_int i))"
proof (cases "\<bar>i\<bar> = 2 ^ 53")
  case True
  have bl: "bit_length \<bar>i\<bar> - 53 = 1"
    using True by (simp add: bit_length_2_53)
  have "float_of_int i = Inr (Finite (of_int (sgn i * \<bar>i\<bar>)))"
    unfolding float_of_int_def Let_def bl by (simp add: True)
  then show ?thesis by (simp add: mult_sgn_abs)
next
  case False
  with assms have "\<bar>i\<bar> < 2 ^ 53" by simp
  then have "bit_length \<bar>i\<bar> \<le> 53" by (intro bit_length_bound) simp_all
  then have sh: "bit_length \<bar>i\<bar> - 53 = 0" by simp
  have "\<bar>i\<bar> < 2 ^ 1024" using \<open>\<bar>i\<bar> < 2 ^ 53\<close> by simp
  then have "float_of_int i = Inr (Finite (of_int (sgn i * \<bar>i\<bar>)))"
    by (simp add: float_of_int_def sh Let_def)
  then show ?thesis by (simp add: mult_sgn_abs)
qed

section \<open>Properties of the weather service\<close>

lemma datetime_now_requests_get [simp]:
  "datetime_now (w\<lparr>requests_get := e\<rparr>) = datetime_now w"
  by (simp add: datetime_now_def)

lemma weather_of_data_requests_get [simp]:
  "weather_of_data (w\<lparr>requests_get := e\<rparr>) data = weather_of_data w data"
  by (simp add: weather_of_data_def)

lemma get_cuneo_weather_decoded:
  assumes "upstream_returns w data"
  shows "fst (get_cuneo_weather cfg w) =
    (case weather_of_data w data of Inl e \<Rightarrow> Inl (weather_except e) | Inr reading \<Rightarrow> Inr reading)"
  using assms
  by (auto simp: upstream_returns_def get_cuneo_weather_def weather_try_def call_def
      split: sum.splits prod.splits)

lemma get_cuneo_weather_transport:
  assumes "transport_failure w = Some m"
  shows "fst (get_cuneo_weather cfg w) =
    Inl (HTTPException 500 (''Errore nel recupero dei dati meteo: '' @ m))"
  using assms
  by (auto simp: transport_failure_def get_cuneo_weather_def weather_try_def call_def
      raise_for_status_def json_def
      split: sum.splits prod.splits exn.splits if_splits)

lemma float_if_not_None_number:
  "number_value v = Some x \<Longrightarrow> float_if_not_None parse v = Inr (PyFloat x)"
  by (cases v) (auto simp: float_if_not_None_def py_float_def float_of_int_exact split: if_splits)

lemma float_if_not_None_PyNone [simp]: "float_if_not_None parse PyNone = Inr PyNone"
  by (simp add: float_if_not_None_def)

text \<open>
  C1.  When the upstream response holds a current-weather block with a temperature and
  a non-empty hourly relative-humidity series, both of them numbers, the reading
  returned has exactly that temperature and the first entry of the series as its
  humidity: the values pass through \<^verbatim>\<open>float\<close> and nothing else.
\<close>

theorem weather_reading_exact:
  assumes "upstream_returns w (PyDict kvs)"
    and "map_of kvs ''current_weather'' = Some (PyDict cw)"
    and "map_of cw ''temperature'' = Some t"
    and "map_of kvs ''hourly'' = Some (PyDict hourly)"
    and "map_of hourly ''relative_humidity_2m'' = Some (PyList (h # hs))"
    and "number_value t = Some tv"
    and "number_value h = Some hv"
  shows "fst (get_cuneo_weather cfg w) =
    Inr (PyDict
      [(''city'', PyStr ''Cuneo''),
       (''temperature'', PyFloat tv),
       (''humidity'', PyFloat hv),
       (''timestamp'', PyDatetime (datetime_now w))])"
proof -
  have "temperature_of (PyDict kvs) = Inr t"
    using assms(2,3) by (simp add: temperature_of_def)
  moreover have "humidity_of (PyDict kvs) = Inr h"
    using assms(4,5) by (simp add: humidity_of_def getitem0_def)
  ultimately show ?thesis
    using assms(6,7)
    by (simp add: get_cuneo_weather_decoded [OF assms(1)] weather_of_data_def
        float_if_not_None_number)
qed

text \<open>The reading for a body as the forecast service sends it.\<close>

theorem weather_reading_exact_witness:
  "upstream_returns (example_world (ok_response (PyDict example_body)) chat_down) (PyDict example_body)
   \<and> number_value (PyFloat (Finite (25 / 2))) = Some (Finite (25 / 2))
   \<and> number_value (PyInt 87) = Some (Finite 87)
   \<and> fst (get_cuneo_weather example_settings
            (example_world (ok_response (PyDict example_body)) chat_down)) =
       Inr (PyDict
         [(''city'', PyStr ''Cuneo''),
          (''temperature'', PyFloat (Finite (25 / 2))),
          (''humidity'', PyFloat (Finite 87)),
          (''timestamp'', PyDatetime (Datetime 1700003600000000 None))])"
proof -
  let ?w = "example_world (ok_response (PyDict example_body)) chat_down"
  have up: "upstream_returns ?w (PyDict example_body)"
    by (simp add: upstream_returns_def example_world_def ok_response_def
        raise_for_status_def json_def)
  have now: "datetime_now ?w = Datetime 1700003600000000 None"
    by (simp add: datetime_now_def example_world_def)
  have "fst (get_cuneo_weather example_settings ?w) =
       Inr (PyDict
         [(''city'', PyStr ''Cuneo''),
          (''temperature'', PyFloat (Finite (25 / 2))),
          (''humidity'', PyFloat (Finite 87)),
          (''timestamp'', PyDatetime (datetime_now ?w))])"
    by (rule weather_reading_exact [OF up, where cw = "[(''temperature'', PyFloat (Finite (25 / 2))), (''time'', PyStr ''2023-11-14T23:00'')]"
          and hourly = "[(''relative_humidity_2m'', PyList [PyInt 87, PyInt 88])]" and hs = "[PyInt 88]"
          and t = "PyFloat (Finite (25 / 2))" and h = "PyInt 87"])
       (simp_all add: example_body_def)
  with up now show ?thesis by simp
qed

text \<open>
  C2, as amended.  When the body is an object without the \<^verbatim>\<open>current_weather\<close> key,
  the request fails only if extracting or converting the humidity raises; otherwise
  it returns the reading, with the temperature \<^verbatim>\<open>None\<close>.
\<close>

theorem weather_without_current_weather:
  assumes "upstream_returns w (PyDict kvs)"
    and "map_of kvs ''current_weather'' = None"
  shows "fst (get_cuneo_weather cfg w) =
    (case bnd (humidity_of (PyDict kvs)) (float_if_not_None (float_of_str w)) of
       Inl e \<Rightarrow> Inl (weather_except e)
     | Inr h \<Rightarrow>
         Inr (PyDict
           [(''city'', PyStr ''Cuneo''),
            (''temperature'', PyNone),
            (''humidity'', h),
            (''timestamp'', PyDatetime (datetime_now w))]))"
proof -
  have "temperature_of (PyDict kvs) = Inr PyNone"
    using assms(2) by (simp add: temperature_of_def)
  then show ?thesis
    by (cases "humidity_of (PyDict kvs)")
       (simp_all add: get_cuneo_weather_decoded [OF assms(1)] weather_of_data_def
          split: sum.splits)
qed

text \<open>The empty object gives a reading with neither temperature nor humidity.\<close>

theorem weather_without_current_weather_witness:
  "upstream_returns (example_world (ok_response (PyDict [])) chat_down) (PyDict [])
   \<and> map_of ([] :: (string \<times> pyval) list) ''current_weather'' = None
   \<and> fst (get_cuneo_weather example_settings (example_world (ok_response (PyDict [])) chat_down)) =
       Inr (PyDict
         [(''city'', PyStr ''Cuneo''),
          (''temperature'', PyNone),
          (''humidity'', PyNone),
          (''timestamp'', PyDatetime (Datetime 1700003600000000 None))])"
proof -
  let ?w = "example_world (ok_response (PyDict [])) chat_down"
  have up: "upstream_returns ?w (PyDict [])"
    by (simp add: upstream_returns_def example_world_def ok_response_def
        raise_for_status_def json_def)
  have now: "datetime_now ?w = Datetime 1700003600000000 None"
    by (simp add: datetime_now_def example_world_def)
  show ?thesis
    using weather_without_current_weather [OF up, of example_settings] up now
    by (simp add: humidity_of_def getitem0_def)
qed

text \<open>
  C2 as stated fails: a body without \<^verbatim>\<open>current_weather\<close> whose humidity series is
  \<^verbatim>\<open>null\<close> is answered with status 500.
\<close>

theorem weather_without_current_weather_fails:
  "upstream_returns (example_world (ok_response (PyDict body_null_series)) chat_down)
     (PyDict body_null_series)
   \<and> map_of body_null_series ''current_weather'' = None
   \<and> fst (get_cuneo_weather example_settings
            (example_world (ok_response (PyDict body_null_series)) chat_down)) =
       Inl (HTTPException 500
         ''Errore nel processamento dei dati meteo: 'NoneType' object is not subscriptable'')"
  by (simp add: upstream_returns_def example_world_def ok_response_def raise_for_status_def
      json_def body_null_series_def get_cuneo_weather_def weather_try_def call_def
      weather_of_data_def temperature_of_def humidity_of_def getitem0_def quoted_def)

lemma getitem0_PyList [simp]:
  "getitem0 (PyList (x # xs)) = Inr x"
  "getitem0 (PyList []) = Inl (IndexError ''list index out of range'')"
  by (simp_all add: getitem0_def)

lemma humidity_missing_None:
  assumes "humidity_missing kvs"
  shows "humidity_of (PyDict kvs) = Inr PyNone"
proof (cases "map_of kvs ''hourly''")
  case None
  then show ?thesis by (simp add: humidity_of_def)
next
  case (Some hourly_data)
  with assms obtain hourly where hourly: "hourly_data = PyDict hourly"
    by (cases hourly_data) (simp_all add: humidity_missing_def)
  show ?thesis
  proof (cases "map_of hourly ''relative_humidity_2m''")
    case None
    with Some hourly show ?thesis by (simp add: humidity_of_def)
  next
    case series: (Some series)
    with assms Some hourly obtain xs where xs: "series = PyList xs"
      by (cases series) (simp_all add: humidity_missing_def)
    with assms Some hourly series obtain x rest where "xs = x # rest"
      by (cases xs) (simp_all add: humidity_missing_def)
    moreover with assms Some hourly series xs have "x = PyNone"
      by (cases x) (simp_all add: humidity_missing_def)
    ultimately show ?thesis
      using Some hourly series xs by (simp add: humidity_of_def)
  qed
qed

lemma example_upstream_returns:
  "upstream_returns (example_world (ok_response body) chat) body"
  by (simp add: upstream_returns_def example_world_def ok_response_def
      raise_for_status_def json_def)

lemma example_datetime_now:
  "datetime_now (example_world weather chat) = Datetime 1700003600000000 None"
  by (simp add: datetime_now_def example_world_def)

text \<open>
  C3, as amended.  When the body is an object with no hourly block, or with an hourly
  block that has no relative-humidity series or whose series starts with
  \<^verbatim>\<open>null\<close>, the humidity is \<^verbatim>\<open>None\<close> and the request fails only if extracting
  or converting the temperature raises.
\<close>

theorem weather_without_humidity:
  assumes "upstream_returns w (PyDict kvs)"
    and "humidity_missing kvs"
  shows "fst (get_cuneo_weather cfg w) =
    (case bnd (temperature_of (PyDict kvs)) (float_if_not_None (float_of_str w)) of
       Inl e \<Rightarrow> Inl (weather_except e)
     | Inr t \<Rightarrow>
         Inr (PyDict
           [(''city'', PyStr ''Cuneo''),
            (''temperature'', t),
            (''humidity'', PyNone),
            (''timestamp'', PyDatetime (datetime_now w))]))"
proof -
  have "humidity_of (PyDict kvs) = Inr PyNone"
    using assms(2) by (rule humidity_missing_None)
  then show ?thesis
    by (cases "temperature_of (PyDict kvs)")
       (simp_all add: get_cuneo_weather_decoded [OF assms(1)] weather_of_data_def
          split: sum.splits)
qed

text \<open>A body without hourly block gives a reading without humidity.\<close>

theorem weather_without_humidity_witness:
  "upstream_returns (example_world (ok_response (PyDict body_no_hourly)) chat_down)
     (PyDict body_no_hourly)
   \<and> humidity_missing body_no_hourly
   \<and> fst (get_cuneo_weather example_settings
            (example_world (ok_response (PyDict body_no_hourly)) chat_down)) =
       Inr (PyDict
         [(''city'', PyStr ''Cuneo''),
          (''temperature'', PyFloat (Finite (25 / 2))),
          (''humidity'', PyNone),
          (''timestamp'', PyDatetime (Datetime 1700003600000000 None))])"
proof -
  have missing: "humidity_missing body_no_hourly"
    by (simp add: humidity_missing_def body_no_hourly_def)
  show ?thesis
    using weather_without_humidity
        [where cfg = example_settings and kvs = body_no_hourly
           and w = "example_world (ok_response (PyDict body_no_hourly)) chat_down",
         OF example_upstream_returns missing]
      missing
    by (simp add: example_upstream_returns example_datetime_now body_no_hourly_def
        temperature_of_def float_if_not_None_def py_float_def)
qed

text \<open>
  C3 as stated fails: an empty relative-humidity series is answered with status 500,
  through the \<^verbatim>\<open>IndexError\<close> clause.
\<close>

theorem weather_empty_series_fails:
  "upstream_returns (example_world (ok_response (PyDict body_empty_series)) chat_down)
     (PyDict body_empty_series)
   \<and> map_of body_empty_series ''hourly'' = Some (PyDict [(''relative_humidity_2m'', PyList [])])
   \<and> fst (get_cuneo_weather example_settings
            (example_world (ok_response (PyDict body_empty_series)) chat_down)) =
       Inl (HTTPException 500
         ''Errore nel processamento dei dati meteo: list index out of range'')"
  by (simp add: example_upstream_returns get_cuneo_weather_decoded [OF example_upstream_returns]
      body_empty_series_def weather_of_data_def temperature_of_def humidity_of_def getitem0_def)

lemma transport_failure_get:
  "behaviour (requests_get w) (base_url, params) = Inl m \<Longrightarrow> transport_failure w = Some m"
  by (simp add: transport_failure_def)

lemma transport_failure_status:
  assumes "behaviour (requests_get w) (base_url, params) = Inr r"
    and "400 \<le> status_code r" and "status_code r < 600"
  shows "transport_failure w \<noteq> None"
  using assms by (simp add: transport_failure_def raise_for_status_def)

lemma get_cuneo_weather_processing:
  assumes "upstream_returns w data"
    and "weather_of_data w data = Inl e"
    and "e = KeyError m \<or> e = IndexError m \<or> e = TypeError m"
  shows "fst (get_cuneo_weather cfg w) =
    Inl (HTTPException 500 (''Errore nel processamento dei dati meteo: '' @ m))"
  using assms(2,3) by (auto simp: get_cuneo_weather_decoded [OF assms(1)])

text \<open>
  C4, as amended.  A \<^verbatim>\<open>RequestException\<close> of the upstream call (raised by
  \<^verbatim>\<open>requests.get\<close>, by \<^verbatim>\<open>raise_for_status\<close> on a 4xx or 5xx status, or by
  \<^verbatim>\<open>json\<close>) becomes an \<open>HTTPException\<close> with status 500 whose detail ends with the
  text of the exception; so does a \<^verbatim>\<open>KeyError\<close>, \<^verbatim>\<open>IndexError\<close> or
  \<^verbatim>\<open>TypeError\<close> raised while the decoded body is processed.
\<close>

theorem weather_errors:
  "(transport_failure w = Some m \<longrightarrow>
      fst (get_cuneo_weather cfg w) =
        Inl (HTTPException 500 (''Errore nel recupero dei dati meteo: '' @ m)))
   \<and> (behaviour (requests_get w) (base_url, params) = Inl m \<longrightarrow> transport_failure w = Some m)
   \<and> (behaviour (requests_get w) (base_url, params) = Inr r
        \<and> 400 \<le> status_code r \<and> status_code r < 600 \<longrightarrow>
      transport_failure w \<noteq> None)
   \<and> (upstream_returns w data \<and> weather_of_data w data = Inl e
        \<and> (e = KeyError m \<or> e = IndexError m \<or> e = TypeError m) \<longrightarrow>
      fst (get_cuneo_weather cfg w) =
        Inl (HTTPException 500 (''Errore nel processamento dei dati meteo: '' @ m)))"
  using get_cuneo_weather_transport [of w m cfg] transport_failure_get [of w m]
    transport_failure_status [of w r] get_cuneo_weather_processing [of w data e m cfg]
  by blast

text \<open>A refused connection, a 503, and an empty humidity series.\<close>

theorem weather_errors_witness:
  "transport_failure (example_world refused chat_down) = Some ''Connection refused''
   \<and> fst (get_cuneo_weather example_settings (example_world refused chat_down)) =
       Inl (HTTPException 500 ''Errore nel recupero dei dati meteo: Connection refused'')
   \<and> transport_failure (example_world unavailable chat_down) \<noteq> None
   \<and> weather_of_data (example_world (ok_response (PyDict body_empty_series)) chat_down)
       (PyDict body_empty_series) = Inl (IndexError ''list index out of range'')
   \<and> fst (get_cuneo_weather example_settings
            (example_world (ok_response (PyDict body_empty_series)) chat_down)) =
       Inl (HTTPException 500
         ''Errore nel processamento dei dati meteo: list index out of range'')"
proof -
  let ?down = "example_world refused chat_down"
  let ?busy = "example_world unavailable chat_down"
  let ?empty = "example_world (ok_response (PyDict body_empty_series)) chat_down"
  have get: "behaviour (requests_get ?down) (base_url, params) = Inl ''Connection refused''"
    by (simp add: example_world_def refused_def)
  have busy: "behaviour (requests_get ?busy) (base_url, params) =
      Inr \<lparr>status_code = 503, reason = ''Service Unavailable'', url = base_url,
           json_result = Inl ''Expecting value: line 1 column 1 (char 0)''\<rparr>"
    by (simp add: example_world_def unavailable_def)
  have raised: "weather_of_data ?empty (PyDict body_empty_series) =
      Inl (IndexError ''list index out of range'')"
    by (simp add: weather_of_data_def temperature_of_def humidity_of_def body_empty_series_def)
  from weather_errors [where w = ?down and m = "''Connection refused''" and cfg = example_settings]
    get
  have 1: "transport_failure ?down = Some ''Connection refused''"
    and 2: "fst (get_cuneo_weather example_settings ?down) =
       Inl (HTTPException 500 ''Errore nel recupero dei dati meteo: Connection refused'')"
    by simp_all
  from weather_errors [where w = ?busy and r = "\<lparr>status_code = 503, reason = ''Service Unavailable'', url = base_url,
           json_result = Inl ''Expecting value: line 1 column 1 (char 0)''\<rparr>"] busy
  have 3: "transport_failure ?busy \<noteq> None"
    by simp
  from weather_errors [where w = ?empty and data = "PyDict body_empty_series"
      and e = "IndexError ''list index out of range''" and m = "''list index out of range''"
      and cfg = example_settings]
    example_upstream_returns raised
  have 4: "fst (get_cuneo_weather example_settings ?empty) =
       Inl (HTTPException 500
         ''Errore nel processamento dei dati meteo: list index out of range'')"
    by simp
  from 1 2 3 raised 4 show ?thesis by simp
qed

text \<open>
  C4 as stated fails: a body whose blocks miss the \<^verbatim>\<open>temperature\<close> and
  \<^verbatim>\<open>relative_humidity_2m\<close> keys raises nothing.
\<close>

theorem weather_missing_keys_no_error:
  "upstream_returns (example_world (ok_response (PyDict body_missing_keys)) chat_down)
     (PyDict body_missing_keys)
   \<and> map_of body_missing_keys ''current_weather'' = Some (PyDict [])
   \<and> map_of body_missing_keys ''hourly'' = Some (PyDict [])
   \<and> fst (get_cuneo_weather example_settings
            (example_world (ok_response (PyDict body_missing_keys)) chat_down)) =
       Inr (PyDict
         [(''city'', PyStr ''Cuneo''),
          (''temperature'', PyNone),
          (''humidity'', PyNone),
          (''timestamp'', PyDatetime (Datetime 1700003600000000 None))])"
  by (simp add: example_upstream_returns get_cuneo_weather_decoded [OF example_upstream_returns]
      body_missing_keys_def weather_of_data_def temperature_of_def humidity_of_def
      example_datetime_now)

text \<open>
  An \<^verbatim>\<open>AttributeError\<close> is not among the exceptions the two clauses catch: a
  \<^verbatim>\<open>current_weather\<close> that is \<^verbatim>\<open>null\<close> lets it leave the function.
\<close>

lemma weather_null_block_escapes:
  "upstream_returns (example_world (ok_response (PyDict body_null_block)) chat_down)
     (PyDict body_null_block)
   \<and> fst (get_cuneo_weather example_settings
            (example_world (ok_response (PyDict body_null_block)) chat_down)) =
       Inl (AttributeError (quoted ''NoneType'' @ '' object has no attribute '' @ quoted ''get''))"
  by (simp add: example_upstream_returns get_cuneo_weather_decoded [OF example_upstream_returns]
      body_null_block_def weather_of_data_def temperature_of_def get_def quoted_def)

lemma bnd_eq_Inr: "bnd m f = Inr y \<longleftrightarrow> (\<exists>x. m = Inr x \<and> f x = Inr y)"
  by (cases m) simp_all

lemma weather_of_data_requests_get_fun [simp]:
  "weather_of_data (w\<lparr>requests_get := e\<rparr>) = weather_of_data w"
  by (simp add: fun_eq_iff)

lemma weather_of_data_shape:
  assumes "weather_of_data w data = Inr reading"
  shows "\<exists>t h. reading =
    PyDict
      [(''city'', PyStr ''Cuneo''),
       (''temperature'', t),
       (''humidity'', h),
       (''timestamp'', PyDatetime (datetime_now w))]"
  using assms by (auto simp: weather_of_data_def bnd_eq_Inr)

lemma get_cuneo_weather_Inr:
  assumes "fst (get_cuneo_weather cfg w) = Inr reading"
  shows "\<exists>data. upstream_returns w data \<and> weather_of_data w data = Inr reading"
proof (cases "behaviour (requests_get w) (base_url, params)")
  case (Inl e)
  with assms show ?thesis
    by (simp add: get_cuneo_weather_def weather_try_def call_def Let_def)
next
  case (Inr response)
  with assms have run: "bnd (raise_for_status response) (\<lambda>_. bnd (json response) (weather_of_data w))
      = Inr reading"
    by (simp add: get_cuneo_weather_def weather_try_def call_def Let_def split: sum.splits)
  then obtain data where "raise_for_status response = Inr ()" "json response = Inr data"
      "weather_of_data w data = Inr reading"
    by (auto simp: bnd_eq_Inr)
  with Inr show ?thesis
    by (auto simp: upstream_returns_def)
qed

lemma get_cuneo_weather_sent:
  "sent (requests_get (snd (get_cuneo_weather cfg w))) = sent (requests_get w) @ [(base_url, params)]"
  by (simp add: get_cuneo_weather_def weather_try_def call_def Let_def)

lemma get_cuneo_weather_settings:
  "get_cuneo_weather cfg' w = get_cuneo_weather cfg w"
  by (simp add: get_cuneo_weather_def)

text \<open>
  C10.  Whatever the upstream answers, the one outbound query goes to the fixed
  address with the fixed parameters, among them the doubles that the literals
  \<^verbatim>\<open>44.384\<close> and \<^verbatim>\<open>7.543\<close> denote (each the double nearest to the decimal);
  the settings play no part in the result; and every reading returned has the city
  \<^verbatim>\<open>"Cuneo"\<close> and the local clock reading \<^verbatim>\<open>datetime.now()\<close> as its timestamp.
\<close>

theorem weather_constants:
  "sent (requests_get (snd (get_cuneo_weather cfg w))) = sent (requests_get w) @ [(base_url, params)]
   \<and> map_of params ''latitude'' = Some (PyFloat float_44_384)
   \<and> map_of params ''longitude'' = Some (PyFloat float_7_543)
   \<and> float_44_384 = Finite (3123246341581439 / 2 ^ 46)
   \<and> \<bar>3123246341581439 / 2 ^ 46 - 44384 / 1000\<bar> \<le> (1 / 2 ^ 48 :: rat)
   \<and> float_7_543 = Finite (8492662997313913 / 2 ^ 50)
   \<and> \<bar>8492662997313913 / 2 ^ 50 - 7543 / 1000\<bar> \<le> (1 / 2 ^ 51 :: rat)
   \<and> get_cuneo_weather cfg' w = get_cuneo_weather cfg w
   \<and> (\<forall>reading. fst (get_cuneo_weather cfg w) = Inr reading \<longrightarrow>
        (\<exists>t h. reading =
           PyDict
             [(''city'', PyStr ''Cuneo''),
              (''temperature'', t),
              (''humidity'', h),
              (''timestamp'', PyDatetime (datetime_now w))]))"
proof -
  have "\<exists>t h. reading =
           PyDict
             [(''city'', PyStr ''Cuneo''),
              (''temperature'', t),
              (''humidity'', h),
              (''timestamp'', PyDatetime (datetime_now w))]"
    if "fst (get_cuneo_weather cfg w) = Inr reading" for reading
    using get_cuneo_weather_Inr [OF that] weather_of_data_shape by blast
  moreover have "\<bar>3123246341581439 / 2 ^ 46 - 44384 / 1000\<bar> \<le> (1 / 2 ^ 48 :: rat)"
    by simp
  moreover have "\<bar>8492662997313913 / 2 ^ 50 - 7543 / 1000\<bar> \<le> (1 / 2 ^ 51 :: rat)"
    by simp
  moreover have "map_of params ''latitude'' = Some (PyFloat float_44_384)"
      "map_of params ''longitude'' = Some (PyFloat float_7_543)"
    by (simp_all add: params_def)
  ultimately show ?thesis
    using get_cuneo_weather_sent [of cfg w] get_cuneo_weather_settings [of cfg' w cfg]
    by (simp add: float_44_384_def float_7_543_def)
qed

text \<open>The reading and the recorded query for a body as the forecast service sends it.\<close>

theorem weather_constants_witness:
  "fst (get_cuneo_weather example_settings
         (example_world (ok_response (PyDict example_body)) chat_down)) =
     Inr (PyDict
       [(''city'', PyStr ''Cuneo''),
        (''temperature'', PyFloat (Finite (25 / 2))),
        (''humidity'', PyFloat (Finite 87)),
        (''timestamp'', PyDatetime (Datetime 1700003600000000 None))])
   \<and> (\<exists>t h. PyDict
         [(''city'', PyStr ''Cuneo''),
          (''temperature'', PyFloat (Finite (25 / 2))),
          (''humidity'', PyFloat (Finite 87)),
          (''timestamp'', PyDatetime (Datetime 1700003600000000 None))] =
        PyDict
         [(''city'', PyStr ''Cuneo''),
          (''temperature'', t),
          (''humidity'', h),
          (''timestamp'', PyDatetime
             (datetime_now (example_world (ok_response (PyDict example_body)) chat_down)))])
   \<and> sent (requests_get (snd (get_cuneo_weather example_settings
         (example_world (ok_response (PyDict example_body)) chat_down)))) = [(base_url, params)]"
proof -
  let ?w = "example_world (ok_response (PyDict example_body)) chat_down"
  have run: "fst (get_cuneo_weather example_settings ?w) =
     Inr (PyDict
       [(''city'', PyStr ''Cuneo''),
        (''temperature'', PyFloat (Finite (25 / 2))),
        (''humidity'', PyFloat (Finite 87)),
        (''timestamp'', PyDatetime (Datetime 1700003600000000 None))])"
    by (simp add: get_cuneo_weather_decoded [OF example_upstream_returns] example_body_def
        weather_of_data_def temperature_of_def humidity_of_def example_datetime_now
        float_if_not_None_def py_float_def float_of_int_exact)
  have none: "sent (requests_get ?w) = []"
    by (simp add: example_world_def)
  from weather_constants [of example_settings ?w example_settings] run none
  show ?thesis by simp
qed

section \<open>Properties of the chat service\<close>

lemma datetime_now_chat_completions [simp]:
  "datetime_now (w\<lparr>chat_completions := e\<rparr>) = datetime_now w"
  by (simp add: datetime_now_def)

lemma get_chat_response_outcome:
  "fst (get_chat_response w message) =
    (case bnd (behaviour (chat_completions w) (create_kwargs message)) (\<lambda>response.
          bnd (first_choice_content response) (\<lambda>content.
          Inr (PyDict [(''response'', content), (''timestamp'', PyDatetime (datetime_now w))]))) of
       Inl e \<Rightarrow> Inl (chat_except e)
     | Inr reply \<Rightarrow> Inr reply)"
  by (simp add: get_chat_response_def chat_try_def call_def Let_def)

lemma get_chat_response_sent:
  "sent (chat_completions (snd (get_chat_response w message))) =
     sent (chat_completions w) @ [create_kwargs message]"
  by (simp add: get_chat_response_def chat_try_def call_def Let_def)

text \<open>
  C5.  For every message, the one request sent to the chat upstream has the model
  \<^verbatim>\<open>"gpt-3.5-turbo"\<close>, the token cap 150 and a message list of exactly one message,
  with role \<^verbatim>\<open>"user"\<close> and the input as content; when the upstream answers with a
  completion, the \<^verbatim>\<open>"response"\<close> entry returned is the content of its first choice
  as it is.
\<close>

theorem chat_payload_and_reply:
  "sent (chat_completions (snd (get_chat_response w message))) =
     sent (chat_completions w) @
       [[(''model'', PyStr ''gpt-3.5-turbo''),
         (''messages'', PyList [PyDict [(''role'', PyStr ''user''), (''content'', PyStr message)]]),
         (''max_tokens'', PyInt 150)]]
   \<and> (behaviour (chat_completions w) (create_kwargs message) =
         Inr (ChatCompletion (Choice (ChatCompletionMessage content) # rest)) \<longrightarrow>
       fst (get_chat_response w message) =
         Inr (PyDict
           [(''response'', case content of None \<Rightarrow> PyNone | Some s \<Rightarrow> PyStr s),
            (''timestamp'', PyDatetime (datetime_now w))]))"
  by (simp add: get_chat_response_sent get_chat_response_outcome create_kwargs_def)

text \<open>
  A completion with one choice: the recorded request and the reply.
\<close>

theorem chat_payload_and_reply_witness:
  "behaviour (chat_completions (example_world refused example_completion))
      (create_kwargs ''Che tempo fa?'') =
     Inr (ChatCompletion [Choice (ChatCompletionMessage (Some ''Buongiorno!''))])
   \<and> sent (chat_completions
        (snd (get_chat_response (example_world refused example_completion) ''Che tempo fa?''))) =
       [[(''model'', PyStr ''gpt-3.5-turbo''),
         (''messages'',
            PyList [PyDict [(''role'', PyStr ''user''), (''content'', PyStr ''Che tempo fa?'')]]),
         (''max_tokens'', PyInt 150)]]
   \<and> fst (get_chat_response (example_world refused example_completion) ''Che tempo fa?'') =
       Inr (PyDict
         [(''response'', PyStr ''Buongiorno!''),
          (''timestamp'', PyDatetime (Datetime 1700003600000000 None))])"
proof -
  let ?w = "example_world refused example_completion"
  have answer: "behaviour (chat_completions ?w) (create_kwargs ''Che tempo fa?'') =
     Inr (ChatCompletion [Choice (ChatCompletionMessage (Some ''Buongiorno!''))])"
    by (simp add: example_world_def example_completion_def)
  have none: "sent (chat_completions ?w) = []"
    by (simp add: example_world_def)
  from chat_payload_and_reply
    [where w = ?w and message = "''Che tempo fa?''" and content = "Some ''Buongiorno!''"
       and rest = "[]"]
    answer none
  show ?thesis by (simp add: example_datetime_now)
qed

text \<open>
  C6.  Every error (an instance of \<^verbatim>\<open>Exception\<close>) that the chat upstream call
  raises, whatever its kind, becomes an \<open>HTTPException\<close> with status 500 whose detail
  ends with the text of the error.
\<close>

theorem chat_errors:
  assumes "behaviour (chat_completions w) (create_kwargs message) = Inl e"
    and "isinstance_Exception e"
  shows "fst (get_chat_response w message) =
    Inl (HTTPException 500 (''Errore nella comunicazione con OpenAI: '' @ str_exn e))"
  using assms by (simp add: get_chat_response_outcome chat_except_def)

text \<open>
  A rate limit of the provider.
\<close>

theorem chat_errors_witness:
  "behaviour (chat_completions (example_world refused rate_limited)) (create_kwargs ''Ciao'') =
     Inl (OtherException ''Error code: 429'')
   \<and> isinstance_Exception (OtherException ''Error code: 429'')
   \<and> fst (get_chat_response (example_world refused rate_limited) ''Ciao'') =
       Inl (HTTPException 500 ''Errore nella comunicazione con OpenAI: Error code: 429'')"
proof -
  let ?w = "example_world refused rate_limited"
  have answer: "behaviour (chat_completions ?w) (create_kwargs ''Ciao'') =
     Inl (OtherException ''Error code: 429'')"
    by (simp add: example_world_def rate_limited_def)
  have exception: "isinstance_Exception (OtherException ''Error code: 429'')"
    by simp
  from chat_errors [OF answer exception] answer exception
  show ?thesis by simp
qed

section \<open>Properties of the time service\<close>

text \<open>
  C7.  Whatever the timezone of the host, the \<^verbatim>\<open>"timezone"\<close> entry returned is
  \<^verbatim>\<open>"Europe/Rome"\<close>, and the time returned is the clock instant shown in that zone:
  the wall-clock reading is the clock plus the offset of the zone at that instant,
  and the instant it denotes is the clock reading.
\<close>

theorem time_zone_fixed:
  "fst (get_current_time (TimeService_init tzdata) (w\<lparr>local_utcoffset := host\<rparr>)) =
     PyDict
       [(''current_time'',
           PyDatetime (Datetime (utcnow w + tzdata ''Europe/Rome'' (utcnow w))
             (Some (''Europe/Rome'', tzdata ''Europe/Rome'' (utcnow w))))),
        (''timezone'', PyStr ''Europe/Rome'')]
   \<and> returned_instant
        (fst (get_current_time (TimeService_init tzdata) (w\<lparr>local_utcoffset := host\<rparr>))) =
       Some (utcnow w)"
  by (simp add: get_current_time_def TimeService_init_def pytz_timezone_def str_tz_def
      datetime_now_tz_def Let_def)

text \<open>
  On a host five hours behind UTC.
\<close>

theorem time_zone_fixed_witness:
  "fst (get_current_time (TimeService_init example_tzdata)
         ((example_world refused chat_down)\<lparr>local_utcoffset := - 18000000000\<rparr>)) =
     PyDict
       [(''current_time'',
           PyDatetime (Datetime 1700003600000000 (Some (''Europe/Rome'', 3600000000)))),
        (''timezone'', PyStr ''Europe/Rome'')]"
  using time_zone_fixed
    [where tzdata = example_tzdata and w = "example_world refused chat_down"
       and host = "- 18000000000"]
  by (simp add: example_world_def example_tzdata_def)

text \<open>
  C8.  When the clock at the second of two calls is not before the clock at the
  first, the instant returned by the second call is not before the instant returned
  by the first.
\<close>

theorem time_monotone:
  assumes "utcnow w1 \<le> utcnow w2"
  shows "\<exists>i1 i2.
    returned_instant (fst (get_current_time self w1)) = Some i1
    \<and> returned_instant (fst (get_current_time self w2)) = Some i2
    \<and> i1 \<le> i2"
  using assms by (simp add: get_current_time_def datetime_now_tz_def Let_def)

text \<open>
  Two calls one second apart.
\<close>

theorem time_monotone_witness:
  "utcnow (example_world refused chat_down)
     \<le> utcnow ((example_world refused chat_down)\<lparr>utcnow := 1700000001000000\<rparr>)
   \<and> returned_instant (fst (get_current_time (TimeService_init example_tzdata)
        (example_world refused chat_down))) = Some 1700000000000000
   \<and> returned_instant (fst (get_current_time (TimeService_init example_tzdata)
        ((example_world refused chat_down)\<lparr>utcnow := 1700000001000000\<rparr>))) = Some 1700000001000000"
proof -
  let ?w1 = "example_world refused chat_down"
  let ?w2 = "(example_world refused chat_down)\<lparr>utcnow := 1700000001000000\<rparr>"
  have le: "utcnow ?w1 \<le> utcnow ?w2"
    by (simp add: example_world_def)
  from time_monotone [OF le, of "TimeService_init example_tzdata"] le
  show ?thesis
    by (simp add: get_current_time_def datetime_now_tz_def Let_def example_world_def)
qed

section \<open>Properties of the health check\<close>

text \<open>
  C9.  The health check returns \<^verbatim>\<open>{"status": "healthy"}\<close> in every world and leaves
  the world as it is (nothing is sent to any upstream), so any two runs give the same
  response.
\<close>

theorem health_check_constant:
  "health_check w = (PyDict [(''status'', PyStr ''healthy'')], w)
   \<and> fst (health_check w) = fst (health_check w')"
  by (simp add: health_check_def)

text \<open>
  With all upstreams down, and with all of them up.
\<close>

theorem health_check_constant_witness:
  "health_check (example_world refused chat_down) =
     (PyDict [(''status'', PyStr ''healthy'')], example_world refused chat_down)
   \<and> fst (health_check (example_world refused chat_down)) =
       fst (health_check (example_world (ok_response (PyDict example_body)) example_completion))"
  by (rule health_check_constant)

end
